theory Spec2Isabelle
  imports Complex_Main "HOL-Library.Sublist"
begin

section \<open>The gamification tables of \<^verbatim>\<open>src/database.py\<close>\<close>

text \<open>
  The methods of \<^verbatim>\<open>DatabaseManager\<close> act on three PostgreSQL tables. The store is
  modelled as a record of these tables and every method takes the store and returns the
  new one. Dates are day numbers (\<^verbatim>\<open>date.toordinal()\<close>), so that
  \<^verbatim>\<open>(today - last_date).days\<close> is a difference of integers; \<^verbatim>\<open>datetime.now().date()\<close>
  is the argument \<open>today\<close>. Timestamp columns filled by \<^verbatim>\<open>CURRENT_TIMESTAMP\<close> and the
  serial \<^verbatim>\<open>id\<close> columns are left out: no method below reads them.

  Badge icons are emoji, written as lists of Unicode code points.
\<close>

text \<open>
  Modelled from the spec: the column types of \<^verbatim>\<open>student_gamification\<close>. The
  \<^verbatim>\<open>CREATE TABLE\<close> statements are not part of the sources; the spec's data model gives
  \<^verbatim>\<open>totalPoints\<close>, \<^verbatim>\<open>level\<close>, \<^verbatim>\<open>currentStreak\<close> and \<^verbatim>\<open>longestStreak\<close> as integers and
  \<^verbatim>\<open>lastActivityDate\<close> as a date or absent. \<^verbatim>\<open>student_id\<close> is the key of the table
  (\<^verbatim>\<open>ON CONFLICT (student_id)\<close> in the source), so the table is a map.
\<close>

record gamification_row =
  total_points :: int
  level :: int
  current_streak :: int
  longest_streak :: int
  last_activity_date :: "int option"

record badge_row =
  student_id :: nat
  badge_name :: string
  badge_description :: string
  badge_icon :: "nat list"

record notification_row =
  user_id :: nat
  title :: string
  message :: string
  notification_type :: string

record db =
  student_gamification :: "nat \<rightharpoonup> gamification_row"
  badges :: "badge_row list"
  notifications :: "notification_row list"

text \<open>
  Modelled from the spec: the column defaults used by
  \<^verbatim>\<open>INSERT INTO student_gamification (student_id) VALUES (%s)\<close> (``create with zero
  defaults''; the level of zero points is 1). The table definition is not in the sources.
\<close>

definition default_gamification_row :: gamification_row where
  "default_gamification_row =
     \<lparr>total_points = 0, level = 1, current_streak = 0, longest_streak = 0,
      last_activity_date = None\<rparr>"

text \<open>\<^verbatim>\<open>_initialize_gamification\<close>: insert the default row, \<^verbatim>\<open>ON CONFLICT DO NOTHING\<close>.\<close>

definition initialize_gamification :: "db \<Rightarrow> nat \<Rightarrow> bool \<times> db" where
  "initialize_gamification st sid =
     (case student_gamification st sid of
        Some _ \<Rightarrow> (True, st)
      | None \<Rightarrow>
          (True, st\<lparr>student_gamification :=
                      (student_gamification st)(sid \<mapsto> default_gamification_row)\<rparr>))"

text \<open>
  PostgreSQL's \<^verbatim>\<open>/\<close> on two integers truncates towards zero; \<^verbatim>\<open>FLOOR\<close> of the integer
  quotient is that quotient. The divisor in the source is the literal 100.
\<close>

definition pg_int_div :: "int \<Rightarrow> int \<Rightarrow> int" where
  "pg_int_div a b = sgn a * sgn b * (\<bar>a\<bar> div \<bar>b\<bar>)"

text \<open>
  \<^verbatim>\<open>_has_badge\<close>: the rows of
  \<^verbatim>\<open>SELECT id FROM badges WHERE student_id = %s AND badge_name = %s\<close>, and whether
  \<^verbatim>\<open>fetchone()\<close> finds one.
\<close>

definition select_badges :: "db \<Rightarrow> nat \<Rightarrow> string \<Rightarrow> badge_row list" where
  "select_badges st sid name =
     filter (\<lambda>b. student_id b = sid \<and> badge_name b = name) (badges st)"

definition has_badge :: "db \<Rightarrow> nat \<Rightarrow> string \<Rightarrow> bool" where
  "has_badge st sid name = (select_badges st sid name \<noteq> [])"

text \<open>
  \<^verbatim>\<open>_check_and_award_badges\<close>. The list \<^verbatim>\<open>badges_to_award\<close> is built first, every
  \<^verbatim>\<open>_has_badge\<close> query reading the table as it is on entry; then each entry is inserted
  into \<^verbatim>\<open>badges\<close>, followed by its notification.
\<close>

definition badges_to_award ::
  "db \<Rightarrow> nat \<Rightarrow> int \<Rightarrow> int \<Rightarrow> int \<Rightarrow> (string \<times> string \<times> nat list) list" where
  "badges_to_award st sid tot lvl streak =
     (if tot \<ge> 100 \<and> \<not> has_badge st sid ''Century''
        then [(''Century'', ''Earned 100 points'', [0x1F3C6])] else []) @
     (if tot \<ge> 500 \<and> \<not> has_badge st sid ''Champion''
        then [(''Champion'', ''Earned 500 points'', [0x1F3C5])] else []) @
     (if tot \<ge> 1000 \<and> \<not> has_badge st sid ''Legend''
        then [(''Legend'', ''Earned 1000 points'', [0x1F451])] else []) @
     (if streak \<ge> 7 \<and> \<not> has_badge st sid ''Week Warrior''
        then [(''Week Warrior'', ''7-day learning streak'', [0x1F525])] else []) @
     (if streak \<ge> 30 \<and> \<not> has_badge st sid ''Month Master''
        then [(''Month Master'', ''30-day learning streak'', [0x2B50])] else []) @
     (if lvl \<ge> 5 \<and> \<not> has_badge st sid ''Rising Star''
        then [(''Rising Star'', ''Reached Level 5'', [0x1F31F])] else []) @
     (if lvl \<ge> 10 \<and> \<not> has_badge st sid ''Superstar''
        then [(''Superstar'', ''Reached Level 10'', [0x1F4AB])] else [])"

fun award_badges :: "db \<Rightarrow> nat \<Rightarrow> (string \<times> string \<times> nat list) list \<Rightarrow> db" where
  "award_badges st sid [] = st"
| "award_badges st sid ((name, description, icon) # rest) =
     award_badges
       (st\<lparr>badges := badges st @
              [\<lparr>student_id = sid, badge_name = name, badge_description = description,
                badge_icon = icon\<rparr>],
            notifications := notifications st @
              [\<lparr>user_id = sid, title = ''New Badge Earned!'',
                message = ''Congratulations! You earned the '' @ [CHR 0x27] @ name @
                          [CHR 0x27] @ '' badge: '' @ description,
                notification_type = ''achievement''\<rparr>]\<rparr>)
       sid rest"

definition check_and_award_badges :: "db \<Rightarrow> nat \<Rightarrow> int \<Rightarrow> int \<Rightarrow> db" where
  "check_and_award_badges st sid new_points streak =
     (case student_gamification st sid of
        None \<Rightarrow> st
      | Some row \<Rightarrow>
          award_badges st sid
            (badges_to_award st sid (total_points row) (level row) streak))"

text \<open>
  \<^verbatim>\<open>add_points\<close>. The result is the returned flag and the store after \<^verbatim>\<open>commit\<close>. The
  \<^verbatim>\<open>except\<close> branch (\<^verbatim>\<open>return False\<close>) is entered only when the database driver
  raises; with the store at hand no statement of the body raises, and no statement
  inspects \<^verbatim>\<open>points\<close> or \<^verbatim>\<open>reason\<close> before the \<^verbatim>\<open>UPDATE\<close>. In the \<^verbatim>\<open>UPDATE\<close> the
  right-hand sides read the row as it was before the statement.
\<close>

definition streak_update :: "int option \<Rightarrow> int \<Rightarrow> int \<Rightarrow> int" where
  "streak_update last_date today streak =
     (case last_date of
        Some d \<Rightarrow>
          (let days_diff = today - d in
           if days_diff = 1 then streak + 1
           else if days_diff > 1 then 1
           else streak)
      | None \<Rightarrow> 1)"

definition add_points :: "db \<Rightarrow> int \<Rightarrow> nat \<Rightarrow> int \<Rightarrow> string \<Rightarrow> bool \<times> db" where
  "add_points st today sid points reason =
     (case student_gamification st sid of
        None \<Rightarrow> (True, st)
      | Some row \<Rightarrow>
          (let streak = streak_update (last_activity_date row) today (current_streak row);
               longest = max (longest_streak row) streak;
               st1 = st\<lparr>student_gamification := (student_gamification st)(sid \<mapsto>
                       row\<lparr>total_points := total_points row + points,
                           current_streak := streak,
                           longest_streak := longest,
                           last_activity_date := Some today,
                           level := pg_int_div (total_points row + points) 100 + 1\<rparr>)\<rparr>
           in (True, check_and_award_badges st1 sid points streak)))"

text \<open>The profile of a student after a call, for stating results.\<close>

definition profile_after :: "db \<Rightarrow> int \<Rightarrow> nat \<Rightarrow> int \<Rightarrow> string \<Rightarrow> gamification_row option" where
  "profile_after st today sid points reason =
     student_gamification (snd (add_points st today sid points reason)) sid"

text \<open>Stores for concrete runs: no rows at all, and a store with one more profile.\<close>

definition empty_db :: db where
  "empty_db = \<lparr>student_gamification = Map.empty, badges = [], notifications = []\<rparr>"

definition with_profile :: "db \<Rightarrow> nat \<Rightarrow> gamification_row \<Rightarrow> db" where
  "with_profile st sid row =
     st\<lparr>student_gamification := (student_gamification st)(sid \<mapsto> row)\<rparr>"

definition with_badge :: "db \<Rightarrow> nat \<Rightarrow> string \<Rightarrow> db" where
  "with_badge st sid name =
     st\<lparr>badges := badges st @
           [\<lparr>student_id = sid, badge_name = name, badge_description = [],
             badge_icon = []\<rparr>]\<rparr>"

section \<open>Python strings and the regular expressions of the sources\<close>

text \<open>
  A Python \<^verbatim>\<open>str\<close> is a sequence of Unicode code points, so a text is a list of code
  points; \<^verbatim>\<open>len\<close> is \<open>length\<close>. \<open>py\<close> turns an ASCII literal into such a text.

  \<open>isspace\<close> is Python's table of white space (\<^verbatim>\<open>str.strip()\<close> and \<^verbatim>\<open>\s\<close> use the same
  one) on all code points. Digits, letters and case are those of ASCII: Python's tables
  for code points above 127 (further digits and letters, their case in \<^verbatim>\<open>lower()\<close> and
  under \<^verbatim>\<open>re.IGNORECASE\<close>) are not modelled, and such code points are neither digits
  nor letters here. Of them only the en dash (U+2013) and the bullet (U+2022) occur in
  the patterns of the sources; they are in the character classes below.
\<close>

type_synonym pystr = "nat list"

definition py :: "string \<Rightarrow> pystr" where
  "py s = map of_char s"

definition isspace :: "nat \<Rightarrow> bool" where
  "isspace c =
     ((9 \<le> c \<and> c \<le> 13) \<or> (28 \<le> c \<and> c \<le> 32) \<or> c = 0x85 \<or> c = 0xA0 \<or>
      c = 0x1680 \<or> (0x2000 \<le> c \<and> c \<le> 0x200A) \<or> c = 0x2028 \<or> c = 0x2029 \<or>
      c = 0x202F \<or> c = 0x205F \<or> c = 0x3000)"

definition is_digit :: "nat \<Rightarrow> bool" where
  "is_digit c = (48 \<le> c \<and> c \<le> 57)"

definition is_upper :: "nat \<Rightarrow> bool" where
  "is_upper c = (65 \<le> c \<and> c \<le> 90)"

definition is_lower :: "nat \<Rightarrow> bool" where
  "is_lower c = (97 \<le> c \<and> c \<le> 122)"

definition is_letter :: "nat \<Rightarrow> bool" where
  "is_letter c = (is_upper c \<or> is_lower c)"

text \<open>\<^verbatim>\<open>\w\<close>: letters, digits and the underscore.\<close>

definition is_word_char :: "nat \<Rightarrow> bool" where
  "is_word_char c = (is_letter c \<or> is_digit c \<or> c = 95)"

definition lower_char :: "nat \<Rightarrow> nat" where
  "lower_char c = (if is_upper c then c + 32 else c)"

text \<open>\<^verbatim>\<open>str.lower()\<close> and \<^verbatim>\<open>str.strip()\<close>.\<close>

definition lower :: "pystr \<Rightarrow> pystr" where
  "lower s = map lower_char s"

definition strip :: "pystr \<Rightarrow> pystr" where
  "strip s = rev (dropWhile isspace (rev (dropWhile isspace s)))"

text \<open>
  A literal at the start of a text: \<open>lit w s\<close> is the rest of \<open>s\<close> after \<open>w\<close>, if \<open>s\<close>
  starts with \<open>w\<close>; \<open>lit_ci\<close> is the same under \<^verbatim>\<open>re.IGNORECASE\<close>.
\<close>

fun lit :: "pystr \<Rightarrow> pystr \<Rightarrow> pystr option" where
  "lit [] s = Some s"
| "lit (p # ps) [] = None"
| "lit (p # ps) (c # cs) = (if c = p then lit ps cs else None)"

fun lit_ci :: "pystr \<Rightarrow> pystr \<Rightarrow> pystr option" where
  "lit_ci [] s = Some s"
| "lit_ci (p # ps) [] = None"
| "lit_ci (p # ps) (c # cs) = (if lower_char c = lower_char p then lit_ci ps cs else None)"

text \<open>\<^verbatim>\<open>s.startswith(w)\<close>.\<close>

definition startswith :: "pystr \<Rightarrow> pystr \<Rightarrow> bool" where
  "startswith s w = (lit w s \<noteq> None)"

text \<open>\<^verbatim>\<open>s.split('\n')\<close>: one more piece than there are line feeds.\<close>

fun split_nl :: "pystr \<Rightarrow> pystr list" where
  "split_nl [] = [[]]"
| "split_nl (c # cs) =
     (if c = 10 then [] # split_nl cs
      else (case split_nl cs of [] \<Rightarrow> [[c]] | l # ls \<Rightarrow> (c # l) # ls))"

text \<open>
  \<^verbatim>\<open>\s+\<close> at the start of a text, greedy: the rest after the spaces, if there is at least
  one. In every pattern below \<^verbatim>\<open>\s+\<close> is followed by a character that is no space, so
  giving a space back never helps a match.
\<close>

definition spaces1 :: "pystr \<Rightarrow> pystr option" where
  "spaces1 s =
     (case s of [] \<Rightarrow> None
      | c # cs \<Rightarrow> if isspace c then Some (dropWhile isspace cs) else None)"

subsection \<open>The answer classifier\<close>

text \<open>
  \<^verbatim>\<open>\b\<close> holds at a position when exactly one of the characters before and after it is
  a word character; a missing character (start or end of the text) counts as none.
\<close>

definition word_boundary :: "bool \<Rightarrow> pystr \<Rightarrow> bool" where
  "word_boundary prev_is_word rest =
     (prev_is_word \<noteq> (case rest of [] \<Rightarrow> False | c # _ \<Rightarrow> is_word_char c))"

text \<open>One alternative of a group \<^verbatim>\<open>(w1|w2|...)\b\<close>: the literal, then a boundary.\<close>

definition alt_then_boundary :: "pystr \<Rightarrow> pystr \<Rightarrow> bool" where
  "alt_then_boundary w rest =
     (case lit w rest of
        None \<Rightarrow> False
      | Some r \<Rightarrow> word_boundary (is_word_char (last w)) r)"

text \<open>
  \<^verbatim>\<open>re.search(r'\b(incorrect|wrong|not correct|not right)\b', s)\<close>: does the pattern
  match at some position of \<open>s\<close>? The position is walked with the kind of the character
  before it.
\<close>

definition negative_at :: "bool \<Rightarrow> pystr \<Rightarrow> bool" where
  "negative_at prev_is_word rest =
     (word_boundary prev_is_word rest \<and>
      (alt_then_boundary (py ''incorrect'') rest \<or>
       alt_then_boundary (py ''wrong'') rest \<or>
       alt_then_boundary (py ''not correct'') rest \<or>
       alt_then_boundary (py ''not right'') rest))"

fun search_negative_from :: "bool \<Rightarrow> pystr \<Rightarrow> bool" where
  "search_negative_from prev_is_word [] = negative_at prev_is_word []"
| "search_negative_from prev_is_word (c # cs) =
     (negative_at prev_is_word (c # cs) \<or> search_negative_from (is_word_char c) cs)"

definition search_negative :: "pystr \<Rightarrow> bool" where
  "search_negative s = search_negative_from False s"

text \<open>
  \<^verbatim>\<open>re.search(r'\b(^correct|right|well done|excellent|perfect|great job)\b', s)\<close>. The
  first alternative starts with \<^verbatim>\<open>^\<close>, which (without \<^verbatim>\<open>re.MULTILINE\<close>) holds at the
  start of the text only.
\<close>

definition positive_at :: "bool \<Rightarrow> bool \<Rightarrow> pystr \<Rightarrow> bool" where
  "positive_at at_start prev_is_word rest =
     (word_boundary prev_is_word rest \<and>
      ((at_start \<and> alt_then_boundary (py ''correct'') rest) \<or>
       alt_then_boundary (py ''right'') rest \<or>
       alt_then_boundary (py ''well done'') rest \<or>
       alt_then_boundary (py ''excellent'') rest \<or>
       alt_then_boundary (py ''perfect'') rest \<or>
       alt_then_boundary (py ''great job'') rest))"

fun search_positive_from :: "bool \<Rightarrow> bool \<Rightarrow> pystr \<Rightarrow> bool" where
  "search_positive_from at_start prev_is_word [] = positive_at at_start prev_is_word []"
| "search_positive_from at_start prev_is_word (c # cs) =
     (positive_at at_start prev_is_word (c # cs) \<or>
      search_positive_from False (is_word_char c) cs)"

definition search_positive :: "pystr \<Rightarrow> bool" where
  "search_positive s = search_positive_from True False s"

text \<open>
  The classification in \<^verbatim>\<open>evaluate_answer\<close> (\<^verbatim>\<open>src/models_utils.py\<close>): the value of
  \<^verbatim>\<open>is_correct\<close> computed from the feedback text.
\<close>

definition evaluate_answer_is_correct :: "pystr \<Rightarrow> bool" where
  "evaluate_answer_is_correct feedback =
     (let feedback_lower = strip (lower feedback) in
      if startswith feedback_lower (py ''correct'') then True
      else if startswith feedback_lower (py ''partially'') then False
      else if startswith feedback_lower (py ''incorrect'') \<or>
              startswith feedback_lower (py ''wrong'') then False
      else if search_negative feedback_lower then False
      else if search_positive feedback_lower then True
      else False)"

text \<open>
  The classification inlined in \<^verbatim>\<open>save_practice_result\<close> (\<^verbatim>\<open>src/database.py\<close>),
  translated from its own lines.
\<close>

definition save_practice_result_is_correct :: "pystr \<Rightarrow> bool" where
  "save_practice_result_is_correct feedback =
     (let feedback_lower = strip (lower feedback) in
      if startswith feedback_lower (py ''correct'') then True
      else if startswith feedback_lower (py ''partially'') then False
      else if startswith feedback_lower (py ''incorrect'') \<or>
              startswith feedback_lower (py ''wrong'') then False
      else (if search_negative feedback_lower then False
            else if search_positive feedback_lower then True
            else False))"

subsection \<open>The weak-area extractor\<close>

text \<open>
  The section pattern of \<^verbatim>\<open>_extract_weak_areas_from_analysis\<close>, searched with
  \<^verbatim>\<open>re.IGNORECASE\<close>:
  \<^verbatim>\<open>AREAS?\s+FOR\s+IMPROVEMENT[:\-U+2013]*\s*([\s\S]*?)(?=\d+\.\s+[A-Z]|\Z)\<close>
 . \<open>header_at\<close> is the part up to
  \<^verbatim>\<open>IMPROVEMENT\<close> at the start of a text and gives the rest after it. The optional
  \<^verbatim>\<open>S\<close> is tried first, then the match without it.
\<close>

definition header_tail :: "pystr \<Rightarrow> pystr option" where
  "header_tail s =
     (case spaces1 s of
        None \<Rightarrow> None
      | Some s1 \<Rightarrow>
          (case lit_ci (py ''FOR'') s1 of
             None \<Rightarrow> None
           | Some s2 \<Rightarrow>
               (case spaces1 s2 of
                  None \<Rightarrow> None
                | Some s3 \<Rightarrow> lit_ci (py ''IMPROVEMENT'') s3)))"

definition header_at :: "pystr \<Rightarrow> pystr option" where
  "header_at s =
     (case lit_ci (py ''AREA'') s of
        None \<Rightarrow> None
      | Some r \<Rightarrow>
          (case lit_ci (py ''S'') r of
             None \<Rightarrow> header_tail r
           | Some r' \<Rightarrow>
               (case header_tail r' of
                  Some t \<Rightarrow> Some t
                | None \<Rightarrow> header_tail r)))"

text \<open>
  \<^verbatim>\<open>\d+ sep \s+ letter\<close> at the start of a text, for a class \<open>sep\<close> of separators and
  a class \<open>letter\<close>. The digits are taken greedily; the separator is no digit.
\<close>

definition numbered :: "(nat \<Rightarrow> bool) \<Rightarrow> (nat \<Rightarrow> bool) \<Rightarrow> pystr \<Rightarrow> bool" where
  "numbered sep letter s =
     (case s of
        [] \<Rightarrow> False
      | c # _ \<Rightarrow>
          is_digit c \<and>
          (case dropWhile is_digit s of
             [] \<Rightarrow> False
           | p # r \<Rightarrow>
               sep p \<and>
               (case spaces1 r of
                  None \<Rightarrow> False
                | Some [] \<Rightarrow> False
                | Some (d # _) \<Rightarrow> letter d)))"

text \<open>
  The lookahead \<^verbatim>\<open>(?=\d+\.\s+[A-Z]|\Z)\<close>; under \<^verbatim>\<open>re.IGNORECASE\<close> the class
  \<^verbatim>\<open>[A-Z]\<close> holds the letters of both cases.
\<close>

definition lookahead :: "pystr \<Rightarrow> bool" where
  "lookahead s = (numbered (\<lambda>c. c = 46) is_letter s \<or> s = [])"

text \<open>The lazy group \<^verbatim>\<open>([\s\S]*?)\<close>: the shortest prefix after which the lookahead holds.\<close>

fun lazy_group :: "pystr \<Rightarrow> pystr" where
  "lazy_group [] = []"
| "lazy_group (c # cs) = (if lookahead (c # cs) then [] else c # lazy_group cs)"

definition is_colon_dash :: "nat \<Rightarrow> bool" where
  "is_colon_dash c = (c = 58 \<or> c = 45 \<or> c = 0x2013)"

text \<open>
  After the header, \<^verbatim>\<open>[:\-U+2013]*\<close> and \<^verbatim>\<open>\s*\<close> are greedy and the rest of the pattern
  matches whatever follows (the group can run to the end of the text), so they take all
  they can. The result is \<^verbatim>\<open>match.group(1)\<close>.
\<close>

definition section_after :: "pystr \<Rightarrow> pystr" where
  "section_after t = lazy_group (dropWhile isspace (dropWhile is_colon_dash t))"

text \<open>\<^verbatim>\<open>re.search\<close>: the match at the leftmost position where the header matches.\<close>

fun re_search_section :: "pystr \<Rightarrow> pystr option" where
  "re_search_section [] = None"
| "re_search_section (c # cs) =
     (case header_at (c # cs) of
        Some t \<Rightarrow> Some (section_after t)
      | None \<Rightarrow> re_search_section cs)"

text \<open>The bullet class \<^verbatim>\<open>[\*U+2022\-]\<close>.\<close>

definition is_bullet :: "nat \<Rightarrow> bool" where
  "is_bullet c = (c = 42 \<or> c = 0x2022 \<or> c = 45)"

text \<open>
  \<^verbatim>\<open>re.match(r'^[\*U+2022\-]+$', line)\<close>; \<^verbatim>\<open>$\<close> holds at the end of the text and before a
  line feed that ends the text.
\<close>

definition bullets_only :: "pystr \<Rightarrow> bool" where
  "bullets_only s =
     (case s of
        [] \<Rightarrow> False
      | c # _ \<Rightarrow>
          is_bullet c \<and>
          (let r = dropWhile is_bullet s in r = [] \<or> r = [10]))"

text \<open>
  \<^verbatim>\<open>re.search(r'[A-Z][a-z]+.*!$', line)\<close>. \<open>dot_star_bang_end\<close> is \<^verbatim>\<open>.*!$\<close> at the start
  of a text (\<^verbatim>\<open>.\<close> is any character but the line feed). The letters that \<^verbatim>\<open>[a-z]+\<close>
  takes beyond the first are characters \<^verbatim>\<open>.*\<close> can take as well, so one lower-case
  letter after the capital is what the search needs.
\<close>

fun dot_star_bang_end :: "pystr \<Rightarrow> bool" where
  "dot_star_bang_end [] = False"
| "dot_star_bang_end (c # cs) =
     ((c = 33 \<and> (cs = [] \<or> cs = [10])) \<or> (c \<noteq> 10 \<and> dot_star_bang_end cs))"

fun search_encouragement :: "pystr \<Rightarrow> bool" where
  "search_encouragement (a # b # r) =
     ((is_upper a \<and> is_lower b \<and> dot_star_bang_end r) \<or> search_encouragement (b # r))"
| "search_encouragement [a] = False"
| "search_encouragement [] = False"

text \<open>\<^verbatim>\<open>re.sub(r'^[U+2022\-*]\s*', '', line)\<close>: \<^verbatim>\<open>^\<close> holds at the start only.\<close>

definition remove_bullet :: "pystr \<Rightarrow> pystr" where
  "remove_bullet line =
     (case line of
        [] \<Rightarrow> []
      | c # cs \<Rightarrow> if is_bullet c then dropWhile isspace cs else line)"

text \<open>
  The loop over the lines: \<^verbatim>\<open>continue\<close> goes on with the remaining lines,
  \<^verbatim>\<open>break\<close> ends the list, \<^verbatim>\<open>append\<close> puts the topic before what the remaining lines
  give.
\<close>

fun process_lines :: "pystr list \<Rightarrow> pystr list" where
  "process_lines [] = []"
| "process_lines (l # ls) =
     (let line = strip l in
      if line = [] \<or> bullets_only line then process_lines ls
      else if startswith line (py ''You're'') \<or> search_encouragement line
        then []
      else if startswith line (py ''|'') then []
      else if numbered (\<lambda>c. c = 46 \<or> c = 41) is_upper line then []
      else
        (let cleaned_line = strip (remove_bullet line) in
         if cleaned_line \<noteq> [] \<and> length cleaned_line < 100
         then cleaned_line # process_lines ls
         else process_lines ls))"

text \<open>
  \<^verbatim>\<open>_extract_weak_areas_from_analysis\<close>. Every operation of the body is defined on every
  \<^verbatim>\<open>str\<close>, so for a text the method always returns a list.
\<close>

definition extract_weak_areas_from_analysis :: "pystr \<Rightarrow> pystr list" where
  "extract_weak_areas_from_analysis analysis_text =
     (case re_search_section analysis_text of
        None \<Rightarrow> []
      | Some group1 \<Rightarrow>
          (let weak_section = strip group1 in
           if weak_section = [] then []
           else process_lines (split_nl weak_section)))"

section \<open>Properties of the ledger\<close>

lemma award_badges_gamification:
  "student_gamification (award_badges st sid xs) = student_gamification st"
  by (induction st sid xs rule: award_badges.induct) simp_all

lemma award_badges_badges:
  "badges (award_badges st sid xs) =
     badges st @ map (\<lambda>(n, d, i). \<lparr>student_id = sid, badge_name = n,
                                   badge_description = d, badge_icon = i\<rparr>) xs"
  by (induction st sid xs rule: award_badges.induct) simp_all

lemma award_badges_notifications:
  "length (notifications (award_badges st sid xs)) =
     length (notifications st) + length xs"
  by (induction st sid xs rule: award_badges.induct) simp_all

lemma check_and_award_gamification:
  "student_gamification (check_and_award_badges st sid p s) = student_gamification st"
  by (simp add: check_and_award_badges_def award_badges_gamification split: option.split)

lemma profile_after_Some:
  assumes "student_gamification st sid = Some row"
  shows "profile_after st today sid points reason =
           Some (row\<lparr>total_points := total_points row + points,
                     current_streak :=
                       streak_update (last_activity_date row) today (current_streak row),
                     longest_streak :=
                       max (longest_streak row)
                         (streak_update (last_activity_date row) today (current_streak row)),
                     last_activity_date := Some today,
                     level := pg_int_div (total_points row + points) 100 + 1\<rparr>)"
  using assms
  by (simp add: profile_after_def add_points_def Let_def check_and_award_gamification)

lemma add_points_returns_True: "fst (add_points st today sid points reason) = True"
  by (simp add: add_points_def Let_def split: option.split)

lemma pg_int_div_nonneg: "0 \<le> a \<Longrightarrow> pg_int_div a 100 = a div 100"
  by (cases "a = 0") (simp_all add: pg_int_div_def)

text \<open>
  C6. After \<^verbatim>\<open>add_points\<close> on an existing profile whose new total is not negative, the
  stored level is \<open>floor (total_points / 100) + 1\<close> of the new total.
\<close>

theorem add_points_level:
  assumes "student_gamification st sid = Some row"
    and "0 \<le> total_points row + points"
  shows "\<exists>row'. profile_after st today sid points reason = Some row' \<and>
           total_points row' = total_points row + points \<and>
           level row' = \<lfloor>real_of_int (total_points row') / 100\<rfloor> + 1"
proof -
  have "\<lfloor>real_of_int (total_points row + points) / 100\<rfloor> = (total_points row + points) div 100"
    using floor_divide_of_int_eq [of "total_points row + points" 100, where ?'a = real] by simp
  then show ?thesis
    using assms by (simp add: profile_after_Some pg_int_div_nonneg)
qed

theorem add_points_level_witness:
  "\<exists>row'. profile_after
            (with_profile empty_db 1
               \<lparr>total_points = 95, level = 1, current_streak = 6, longest_streak = 6,
                last_activity_date = Some 9\<rparr>) 10 1 10 ''quiz'' = Some row' \<and>
          total_points row' = 105 \<and> level row' = 2"
  using add_points_level [of "with_profile empty_db 1
               \<lparr>total_points = 95, level = 1, current_streak = 6, longest_streak = 6,
                last_activity_date = Some 9\<rparr>" 1 "\<lparr>total_points = 95, level = 1, current_streak = 6, longest_streak = 6,
                last_activity_date = Some 9\<rparr>" 10 10 "''quiz''"]
  by (auto simp add: with_profile_def empty_db_def)

text \<open>
  C7. On an existing profile, a call on the day of the last activity leaves the current
  streak as it is, a call one day after the last activity adds one to it, and a call five
  days after resets it to 1. In particular the second of two calls on one day leaves the
  streak that the first call stored.
\<close>

theorem add_points_streak:
  assumes "student_gamification st sid = Some row"
  shows "(\<forall>d. last_activity_date row = Some d \<longrightarrow>
            map_option current_streak (profile_after st d sid points reason) =
              Some (current_streak row) \<and>
            map_option current_streak (profile_after st (d + 1) sid points reason) =
              Some (current_streak row + 1) \<and>
            map_option current_streak (profile_after st (d + 5) sid points reason) =
              Some 1) \<and>
         map_option current_streak
           (profile_after (snd (add_points st today sid points reason)) today sid
              points' reason') =
           map_option current_streak (profile_after st today sid points reason)"
proof -
  let ?st1 = "snd (add_points st today sid points reason)"
  obtain row1 where r1: "student_gamification ?st1 sid = Some row1"
    and l1: "last_activity_date row1 = Some today"
    using profile_after_Some [OF assms, of today points reason]
    by (simp add: profile_after_def)
  have "map_option current_streak (profile_after ?st1 today sid points' reason') =
          Some (current_streak row1)"
    by (simp add: profile_after_Some [OF r1] l1 streak_update_def)
  moreover have "map_option current_streak (profile_after st today sid points reason) =
          Some (current_streak row1)"
    using r1 by (simp add: profile_after_def)
  ultimately show ?thesis
    by (simp add: profile_after_Some [OF assms] streak_update_def)
qed

theorem add_points_streak_witness:
  "map_option current_streak
     (profile_after
        (with_profile empty_db 1
           \<lparr>total_points = 40, level = 1, current_streak = 3, longest_streak = 4,
            last_activity_date = Some 20\<rparr>) 20 1 5 ''Practice'') = Some 3 \<and>
   map_option current_streak
     (profile_after
        (with_profile empty_db 1
           \<lparr>total_points = 40, level = 1, current_streak = 3, longest_streak = 4,
            last_activity_date = Some 20\<rparr>) 21 1 5 ''Practice'') = Some 4 \<and>
   map_option current_streak
     (profile_after
        (with_profile empty_db 1
           \<lparr>total_points = 40, level = 1, current_streak = 3, longest_streak = 4,
            last_activity_date = Some 20\<rparr>) 25 1 5 ''Practice'') = Some 1"
  using add_points_streak [of "with_profile empty_db 1
           \<lparr>total_points = 40, level = 1, current_streak = 3, longest_streak = 4,
            last_activity_date = Some 20\<rparr>" 1
           "\<lparr>total_points = 40, level = 1, current_streak = 3, longest_streak = 4,
            last_activity_date = Some 20\<rparr>" 5 "''Practice''" 20 5 "''Practice''"]
  by (simp add: with_profile_def empty_db_def)

text \<open>
  C4 as stated fails: with the last activity on day 11 and a call on day 10, a streak of 5
  stays 5.
\<close>

theorem add_points_future_date_counterexample:
  "map_option current_streak
     (profile_after
        (with_profile empty_db 1
           \<lparr>total_points = 40, level = 1, current_streak = 5, longest_streak = 5,
            last_activity_date = Some 11\<rparr>) 10 1 10 ''quiz'') = Some 5"
  by (simp add: profile_after_def add_points_def with_profile_def empty_db_def
      streak_update_def check_and_award_badges_def badges_to_award_def pg_int_div_def
      Let_def has_badge_def select_badges_def)

text \<open>
  C4, amended. For a profile whose last activity date is later than today,
  \<^verbatim>\<open>add_points\<close> leaves the current streak unchanged: the difference of days is
  negative, so neither the \<^verbatim>\<open>== 1\<close> nor the \<^verbatim>\<open>> 1\<close> branch is taken.
\<close>

theorem add_points_future_date:
  assumes "student_gamification st sid = Some row"
    and "last_activity_date row = Some d"
    and "today < d"
  shows "map_option current_streak (profile_after st today sid points reason) =
           Some (current_streak row)"
  using assms by (simp add: profile_after_Some streak_update_def)

theorem add_points_future_date_witness:
  "map_option current_streak
     (profile_after
        (with_profile empty_db 2
           \<lparr>total_points = 250, level = 3, current_streak = 12, longest_streak = 15,
            last_activity_date = Some 103\<rparr>) 100 2 3 ''Asked question'') = Some 12"
  using add_points_future_date [of "with_profile empty_db 2
           \<lparr>total_points = 250, level = 3, current_streak = 12, longest_streak = 15,
            last_activity_date = Some 103\<rparr>" 2
           "\<lparr>total_points = 250, level = 3, current_streak = 12, longest_streak = 15,
            last_activity_date = Some 103\<rparr>" 103 100 3 "''Asked question''"]
  by (simp add: with_profile_def empty_db_def)

text \<open>
  C2 as stated fails: a call with \<open>-5\<close> points is not rejected. It returns \<^verbatim>\<open>True\<close> and
  the profile loses five points, its streak goes from 6 to 7 and its last activity date
  from day 9 to day 10.
\<close>

theorem add_points_nonpositive_counterexample:
  "fst (add_points
          (with_profile empty_db 1
             \<lparr>total_points = 95, level = 1, current_streak = 6, longest_streak = 6,
              last_activity_date = Some 9\<rparr>) 10 1 (- 5) ''quiz'') = True \<and>
   profile_after
     (with_profile empty_db 1
        \<lparr>total_points = 95, level = 1, current_streak = 6, longest_streak = 6,
         last_activity_date = Some 9\<rparr>) 10 1 (- 5) ''quiz'' =
     Some \<lparr>total_points = 90, level = 1, current_streak = 7, longest_streak = 7,
           last_activity_date = Some 10\<rparr>"
  by (simp add: profile_after_def add_points_def with_profile_def empty_db_def
      streak_update_def check_and_award_badges_def badges_to_award_def pg_int_div_def
      Let_def has_badge_def select_badges_def)

text \<open>
  C2, amended. \<^verbatim>\<open>add_points\<close> does not validate \<^verbatim>\<open>points\<close>: for zero or negative
  points on an existing profile it returns \<^verbatim>\<open>True\<close> and applies the same update as for
  positive points: the total changes by \<^verbatim>\<open>points\<close>, the level is recomputed from the new
  total, the streak is recomputed from the dates and the last activity date becomes today.
\<close>

theorem add_points_nonpositive:
  assumes "points \<le> 0"
    and "student_gamification st sid = Some row"
  shows "fst (add_points st today sid points reason) = True \<and>
         profile_after st today sid points reason =
           Some \<lparr>total_points = total_points row + points,
                 level = pg_int_div (total_points row + points) 100 + 1,
                 current_streak =
                   streak_update (last_activity_date row) today (current_streak row),
                 longest_streak =
                   max (longest_streak row)
                     (streak_update (last_activity_date row) today (current_streak row)),
                 last_activity_date = Some today\<rparr>"
  using assms(2) by (simp add: add_points_returns_True profile_after_Some)

theorem add_points_nonpositive_witness:
  "fst (add_points
          (with_profile empty_db 3
             \<lparr>total_points = 120, level = 2, current_streak = 2, longest_streak = 9,
              last_activity_date = Some 50\<rparr>) 51 3 0 ''Practice'') = True \<and>
   profile_after
     (with_profile empty_db 3
        \<lparr>total_points = 120, level = 2, current_streak = 2, longest_streak = 9,
         last_activity_date = Some 50\<rparr>) 51 3 0 ''Practice'' =
     Some \<lparr>total_points = 120, level = 2, current_streak = 3, longest_streak = 9,
           last_activity_date = Some 51\<rparr>"
  using add_points_nonpositive [of 0 "with_profile empty_db 3
             \<lparr>total_points = 120, level = 2, current_streak = 2, longest_streak = 9,
              last_activity_date = Some 50\<rparr>" 3
             "\<lparr>total_points = 120, level = 2, current_streak = 2, longest_streak = 9,
              last_activity_date = Some 50\<rparr>" 51 "''Practice''"]
  by (simp add: with_profile_def empty_db_def streak_update_def pg_int_div_def)

text \<open>
  C3 as stated fails: on a store without any profile, \<^verbatim>\<open>add_points\<close> for student 1
  returns \<^verbatim>\<open>True\<close> and the student still has no profile.
\<close>

theorem add_points_no_profile_counterexample:
  "fst (add_points empty_db 10 1 10 ''Paper Analysis Completed'') = True \<and>
   profile_after empty_db 10 1 10 ''Paper Analysis Completed'' = None"
  by (simp add: profile_after_def add_points_def empty_db_def)

text \<open>
  C3, amended. For a student with no gamification profile, \<^verbatim>\<open>add_points\<close> creates no
  profile and applies no award: the \<^verbatim>\<open>SELECT\<close> finds no row, the body under
  \<^verbatim>\<open>if result:\<close> is skipped, and the call returns \<^verbatim>\<open>True\<close> with the store unchanged.
  The profile is created by \<^verbatim>\<open>_initialize_gamification\<close>; a call of \<^verbatim>\<open>add_points\<close> after
  it stores a profile that reflects the award.
\<close>

theorem add_points_no_profile:
  assumes "student_gamification st sid = None"
  shows "add_points st today sid points reason = (True, st) \<and>
         profile_after (snd (initialize_gamification st sid)) today sid points reason =
           Some \<lparr>total_points = points, level = pg_int_div points 100 + 1,
                 current_streak = 1, longest_streak = 1,
                 last_activity_date = Some today\<rparr>"
proof -
  have "student_gamification (snd (initialize_gamification st sid)) sid =
          Some default_gamification_row"
    using assms by (simp add: initialize_gamification_def)
  then have "profile_after (snd (initialize_gamification st sid)) today sid points reason =
           Some \<lparr>total_points = points, level = pg_int_div points 100 + 1,
                 current_streak = 1, longest_streak = 1,
                 last_activity_date = Some today\<rparr>"
    by (simp add: profile_after_Some default_gamification_row_def streak_update_def)
  then show ?thesis
    using assms by (simp add: add_points_def)
qed

theorem add_points_no_profile_witness:
  "add_points
     (with_profile empty_db 1
        \<lparr>total_points = 95, level = 1, current_streak = 6, longest_streak = 6,
         last_activity_date = Some 9\<rparr>) 10 2 20 ''Quiz Completed'' =
   (True,
    with_profile empty_db 1
      \<lparr>total_points = 95, level = 1, current_streak = 6, longest_streak = 6,
       last_activity_date = Some 9\<rparr>) \<and>
   profile_after
     (snd (initialize_gamification
        (with_profile empty_db 1
           \<lparr>total_points = 95, level = 1, current_streak = 6, longest_streak = 6,
            last_activity_date = Some 9\<rparr>) 2)) 10 2 20 ''Quiz Completed'' =
     Some \<lparr>total_points = 20, level = 1, current_streak = 1, longest_streak = 1,
           last_activity_date = Some 10\<rparr>"
  using add_points_no_profile [of "with_profile empty_db 1
        \<lparr>total_points = 95, level = 1, current_streak = 6, longest_streak = 6,
         last_activity_date = Some 9\<rparr>" 2 10 20 "''Quiz Completed''"]
  by (simp add: with_profile_def empty_db_def pg_int_div_def)

lemma has_badge_profile_update [simp]:
  "has_badge (st\<lparr>student_gamification := g\<rparr>) sid name = has_badge st sid name"
  by (simp add: has_badge_def select_badges_def)

lemma badges_to_award_not_held:
  "(n, d, i) \<in> set (badges_to_award st sid tot lvl streak) \<Longrightarrow> \<not> has_badge st sid n"
  by (auto simp add: badges_to_award_def split: if_splits)

lemma select_badges_award:
  assumes "has_badge st sid name"
  shows "select_badges (award_badges st sid' (badges_to_award st sid' tot lvl streak)) sid name =
           select_badges st sid name"
proof -
  have "filter (\<lambda>b. student_id b = sid \<and> badge_name b = name)
          (map (\<lambda>(n, d, i). \<lparr>student_id = sid', badge_name = n,
                                badge_description = d, badge_icon = i\<rparr>)
             (badges_to_award st sid' tot lvl streak)) = []"
    using assms badges_to_award_not_held [of _ _ _ st sid' tot lvl streak]
    by (auto simp add: filter_empty_conv)
  then show ?thesis
    by (simp add: select_badges_def award_badges_badges)
qed

lemma select_badges_check_and_award:
  assumes "has_badge st sid name"
  shows "select_badges (check_and_award_badges st sid' p streak) sid name =
           select_badges st sid name"
  using assms
  by (simp add: check_and_award_badges_def select_badges_award split: option.split)

text \<open>
  C1 as stated fails for a student who already holds ``Week Warrior'' from an earlier
  streak: with the profile of the claim (95 points, streak 6, level 1, last activity
  yesterday) the call awards ``Century'' only and inserts one notification.
\<close>

theorem add_points_scenario_counterexample:
  "map badge_name
     (badges (snd (add_points
        (with_badge
           (with_profile empty_db 1
              \<lparr>total_points = 95, level = 1, current_streak = 6, longest_streak = 7,
               last_activity_date = Some 9\<rparr>) 1 ''Week Warrior'')
        10 1 10 ''quiz''))) = [''Week Warrior'', ''Century''] \<and>
   length (notifications (snd (add_points
        (with_badge
           (with_profile empty_db 1
              \<lparr>total_points = 95, level = 1, current_streak = 6, longest_streak = 7,
               last_activity_date = Some 9\<rparr>) 1 ''Week Warrior'')
        10 1 10 ''quiz''))) = 1"
  by (simp add: add_points_def with_profile_def with_badge_def empty_db_def
      streak_update_def check_and_award_badges_def badges_to_award_def pg_int_div_def
      Let_def has_badge_def select_badges_def)

text \<open>
  C1, amended. For a student whose profile holds 95 points, streak 6, level 1 and last
  activity yesterday, and who holds neither the ``Century'' nor the ``Week Warrior''
  badge, \<^verbatim>\<open>add_points(student_id, 10, "quiz")\<close> returns \<^verbatim>\<open>True\<close>, stores 105 points,
  level 2 and streak 7, and appends exactly these two badges and their two notifications,
  in this order.
\<close>

theorem add_points_scenario:
  assumes "student_gamification st sid = Some row"
    and "total_points row = 95" and "current_streak row = 6" and "level row = 1"
    and "last_activity_date row = Some (today - 1)"
    and "\<not> has_badge st sid ''Century''" and "\<not> has_badge st sid ''Week Warrior''"
  shows "fst (add_points st today sid 10 ''quiz'') = True \<and>
         (\<exists>row'. profile_after st today sid 10 ''quiz'' = Some row' \<and>
            total_points row' = 105 \<and> level row' = 2 \<and> current_streak row' = 7) \<and>
         badges (snd (add_points st today sid 10 ''quiz'')) =
           badges st @
             [\<lparr>student_id = sid, badge_name = ''Century'',
               badge_description = ''Earned 100 points'', badge_icon = [0x1F3C6]\<rparr>,
              \<lparr>student_id = sid, badge_name = ''Week Warrior'',
               badge_description = ''7-day learning streak'', badge_icon = [0x1F525]\<rparr>] \<and>
         notifications (snd (add_points st today sid 10 ''quiz'')) =
           notifications st @
             [\<lparr>user_id = sid, title = ''New Badge Earned!'',
               message = ''Congratulations! You earned the '' @ [CHR 0x27] @ ''Century'' @
                         [CHR 0x27] @ '' badge: Earned 100 points'',
               notification_type = ''achievement''\<rparr>,
              \<lparr>user_id = sid, title = ''New Badge Earned!'',
               message = ''Congratulations! You earned the '' @ [CHR 0x27] @
                         ''Week Warrior'' @ [CHR 0x27] @ '' badge: 7-day learning streak'',
               notification_type = ''achievement''\<rparr>]"
proof -
  have p: "profile_after st today sid 10 ''quiz'' =
             Some (row\<lparr>total_points := 105, current_streak := 7,
                       longest_streak := max (longest_streak row) 7,
                       last_activity_date := Some today, level := 2\<rparr>)"
    using assms(2,3,5)
    by (simp add: profile_after_Some [OF assms(1)] streak_update_def pg_int_div_def)
  have b: "snd (add_points st today sid 10 ''quiz'') =
             st\<lparr>student_gamification := (student_gamification st)(sid \<mapsto>
                   row\<lparr>total_points := 105, current_streak := 7,
                       longest_streak := max (longest_streak row) 7,
                       last_activity_date := Some today, level := 2\<rparr>),
                badges := badges st @
                  [\<lparr>student_id = sid, badge_name = ''Century'',
                    badge_description = ''Earned 100 points'', badge_icon = [0x1F3C6]\<rparr>,
                   \<lparr>student_id = sid, badge_name = ''Week Warrior'',
                    badge_description = ''7-day learning streak'',
                    badge_icon = [0x1F525]\<rparr>],
                notifications := notifications st @
                  [\<lparr>user_id = sid, title = ''New Badge Earned!'',
                    message = ''Congratulations! You earned the '' @ [CHR 0x27] @
                              ''Century'' @ [CHR 0x27] @ '' badge: Earned 100 points'',
                    notification_type = ''achievement''\<rparr>,
                   \<lparr>user_id = sid, title = ''New Badge Earned!'',
                    message = ''Congratulations! You earned the '' @ [CHR 0x27] @
                              ''Week Warrior'' @ [CHR 0x27] @
                              '' badge: 7-day learning streak'',
                    notification_type = ''achievement''\<rparr>]\<rparr>"
    using assms
    by (simp add: add_points_def Let_def streak_update_def pg_int_div_def
        check_and_award_badges_def badges_to_award_def)
  show ?thesis
    by (simp add: add_points_returns_True p) (simp add: b)
qed

theorem add_points_scenario_witness:
  "map badge_name
     (badges (snd (add_points
        (with_profile empty_db 1
           \<lparr>total_points = 95, level = 1, current_streak = 6, longest_streak = 6,
            last_activity_date = Some 9\<rparr>)
        10 1 10 ''quiz''))) = [''Century'', ''Week Warrior''] \<and>
   length (notifications (snd (add_points
        (with_profile empty_db 1
           \<lparr>total_points = 95, level = 1, current_streak = 6, longest_streak = 6,
            last_activity_date = Some 9\<rparr>)
        10 1 10 ''quiz''))) = 2 \<and>
   map_option (\<lambda>r. (total_points r, level r, current_streak r))
     (profile_after
        (with_profile empty_db 1
           \<lparr>total_points = 95, level = 1, current_streak = 6, longest_streak = 6,
            last_activity_date = Some 9\<rparr>) 10 1 10 ''quiz'') = Some (105, 2, 7)"
proof -
  let ?row = "\<lparr>total_points = 95, level = 1, current_streak = 6, longest_streak = 6,
               last_activity_date = Some (9::int)\<rparr>"
  let ?st = "with_profile empty_db 1 ?row"
  have h: "student_gamification ?st 1 = Some ?row"
    "\<not> has_badge ?st 1 ''Century''" "\<not> has_badge ?st 1 ''Week Warrior''"
    by (simp_all add: with_profile_def empty_db_def has_badge_def select_badges_def)
  have "last_activity_date ?row = Some (10 - 1)" by simp
  from add_points_scenario [OF h(1) _ _ _ this h(2) h(3)]
  show ?thesis
    by (auto simp add: profile_after_def with_profile_def empty_db_def)
qed

text \<open>
  C8. Once a student holds a badge of some name, no later call of \<^verbatim>\<open>add_points\<close> (for
  any student, any points, any date) and no later run of the badge evaluation adds
  another row with that student and name; the call still returns \<^verbatim>\<open>True\<close>.
\<close>

theorem badge_never_awarded_twice:
  assumes "has_badge st sid name"
  shows "fst (add_points st today sid' points reason) = True \<and>
         select_badges (snd (add_points st today sid' points reason)) sid name =
           select_badges st sid name \<and>
         select_badges (check_and_award_badges st sid' points streak) sid name =
           select_badges st sid name"
proof -
  have "select_badges (snd (add_points st today sid' points reason)) sid name =
          select_badges st sid name"
  proof (cases "student_gamification st sid'")
    case None
    then show ?thesis by (simp add: add_points_def)
  next
    case (Some row)
    let ?st1 = "st\<lparr>student_gamification := (student_gamification st)(sid' \<mapsto>
                    row\<lparr>total_points := total_points row + points,
                        current_streak :=
                          streak_update (last_activity_date row) today (current_streak row),
                        longest_streak :=
                          max (longest_streak row)
                            (streak_update (last_activity_date row) today
                               (current_streak row)),
                        last_activity_date := Some today,
                        level := pg_int_div (total_points row + points) 100 + 1\<rparr>)\<rparr>"
    have "has_badge ?st1 sid name" using assms by simp
    then have "select_badges (check_and_award_badges ?st1 sid' points
                 (streak_update (last_activity_date row) today (current_streak row)))
                 sid name = select_badges ?st1 sid name"
      by (rule select_badges_check_and_award)
    moreover have "select_badges ?st1 sid name = select_badges st sid name"
      by (simp add: select_badges_def)
    ultimately show ?thesis
      using Some by (simp add: add_points_def Let_def)
  qed
  then show ?thesis
    using assms by (simp add: add_points_returns_True select_badges_check_and_award)
qed

theorem badge_never_awarded_twice_witness:
  "fst (add_points
          (with_badge
             (with_profile empty_db 1
                \<lparr>total_points = 100, level = 2, current_streak = 1, longest_streak = 1,
                 last_activity_date = Some 9\<rparr>) 1 ''Century'')
          10 1 5 ''Practice'') = True \<and>
   map badge_name (select_badges (snd (add_points
          (with_badge
             (with_profile empty_db 1
                \<lparr>total_points = 100, level = 2, current_streak = 1, longest_streak = 1,
                 last_activity_date = Some 9\<rparr>) 1 ''Century'')
          10 1 5 ''Practice'')) 1 ''Century'') = [''Century'']"
proof -
  let ?st = "with_badge
             (with_profile empty_db 1
                \<lparr>total_points = 100, level = 2, current_streak = 1, longest_streak = 1,
                 last_activity_date = Some 9\<rparr>) 1 ''Century''"
  have h: "has_badge ?st 1 ''Century''"
    by (simp add: with_profile_def with_badge_def empty_db_def has_badge_def
        select_badges_def)
  have s: "map badge_name (select_badges ?st 1 ''Century'') = [''Century'']"
    by (simp add: with_profile_def with_badge_def empty_db_def select_badges_def)
  from badge_never_awarded_twice [OF h, of 10 1 5 "''Practice''" 0] s
  show ?thesis by simp
qed

section \<open>Properties of the text functions\<close>

lemmas char_defs = isspace_def is_digit_def is_upper_def is_lower_def is_letter_def
  is_word_char_def lower_char_def is_colon_dash_def is_bullet_def

lemmas classifier_defs = py_def lower_def strip_def startswith_def search_negative_def
  search_positive_def negative_at_def positive_at_def alt_then_boundary_def
  word_boundary_def

lemmas extract_defs = extract_weak_areas_from_analysis_def py_def strip_def startswith_def
  spaces1_def header_tail_def header_at_def numbered_def lookahead_def section_after_def
  bullets_only_def remove_bullet_def Let_def

text \<open>
  C5 as stated fails: on ``not entirely correct but well done'' the classifier of
  \<^verbatim>\<open>evaluate_answer\<close> gives \<^verbatim>\<open>True\<close>.
\<close>

theorem classifier_ambiguous_counterexample:
  "evaluate_answer_is_correct (py ''not entirely correct but well done'') = True"
  by (simp add: evaluate_answer_is_correct_def classifier_defs char_defs)

text \<open>
  C5, amended. On ``not entirely correct but well done'' the classifier returns true:
  none of the negative phrases occurs in the text (``not'' and ``correct'' are not
  adjacent), and the positive phrase ``well done'' does. In the fallback branch the
  negative check does run before the positive one: feedback that does not start with
  ``correct'' and in which a negative phrase matches is classified as incorrect, whatever
  positive phrases it holds.
\<close>

theorem classifier_ambiguous:
  "\<not> search_negative (strip (lower (py ''not entirely correct but well done''))) \<and>
   search_positive (strip (lower (py ''not entirely correct but well done''))) \<and>
   evaluate_answer_is_correct (py ''not entirely correct but well done'') = True \<and>
   (\<not> startswith (strip (lower feedback)) (py ''correct'') \<and>
    search_negative (strip (lower feedback)) \<longrightarrow>
      evaluate_answer_is_correct feedback = False)"
proof -
  have "\<not> search_negative (strip (lower (py ''not entirely correct but well done'')))"
    by (simp add: classifier_defs char_defs)
  moreover have "search_positive (strip (lower (py ''not entirely correct but well done'')))"
    by (simp add: classifier_defs char_defs)
  moreover have "evaluate_answer_is_correct (py ''not entirely correct but well done'') = True"
    by (simp add: evaluate_answer_is_correct_def classifier_defs char_defs)
  moreover have "\<not> startswith (strip (lower feedback)) (py ''correct'') \<and>
      search_negative (strip (lower feedback)) \<longrightarrow>
        evaluate_answer_is_correct feedback = False"
    by (simp add: evaluate_answer_is_correct_def Let_def)
  ultimately show ?thesis by blast
qed

theorem classifier_ambiguous_witness:
  "search_negative (strip (lower (py ''That is not correct, but well done!''))) \<and>
   search_positive (strip (lower (py ''That is not correct, but well done!''))) \<and>
   evaluate_answer_is_correct (py ''That is not correct, but well done!'') = False"
proof -
  have "\<not> startswith (strip (lower (py ''That is not correct, but well done!'')))
          (py ''correct'')"
    by (simp add: classifier_defs char_defs)
  moreover have n: "search_negative (strip (lower (py ''That is not correct, but well done!'')))"
    by (simp add: classifier_defs char_defs)
  moreover have "search_positive (strip (lower (py ''That is not correct, but well done!'')))"
    by (simp add: classifier_defs char_defs)
  ultimately show ?thesis
    using classifier_ambiguous [of "py ''That is not correct, but well done!''"] by blast
qed

text \<open>
  C10. The classification inlined in \<^verbatim>\<open>save_practice_result\<close> and the one in
  \<^verbatim>\<open>evaluate_answer\<close> give the same value of \<^verbatim>\<open>is_correct\<close> on every feedback text.
\<close>

theorem classification_paths_agree:
  "save_practice_result_is_correct feedback = evaluate_answer_is_correct feedback"
  by (simp add: save_practice_result_is_correct_def evaluate_answer_is_correct_def)

theorem classification_paths_agree_witness:
  "save_practice_result_is_correct (py ''Good effort, you got it right.'') = True \<and>
   save_practice_result_is_correct (py ''Incorrect, the answer is 5.'') = False"
proof -
  have "evaluate_answer_is_correct (py ''Good effort, you got it right.'') = True"
    by (simp add: evaluate_answer_is_correct_def classifier_defs char_defs)
  moreover have "evaluate_answer_is_correct (py ''Incorrect, the answer is 5.'') = False"
    by (simp add: evaluate_answer_is_correct_def classifier_defs char_defs)
  ultimately show ?thesis
    using classification_paths_agree [of "py ''Good effort, you got it right.''"]
      classification_paths_agree [of "py ''Incorrect, the answer is 5.''"]
    by simp
qed

lemma sublist_trans: "sublist xs ys \<Longrightarrow> sublist ys zs \<Longrightarrow> sublist xs zs"
  unfolding sublist_def by (metis append.assoc)

lemma lit_ci_suffix: "lit_ci w s = Some r \<Longrightarrow> suffix r s"
  by (induction w s rule: lit_ci.induct) (auto split: if_splits intro: suffix_ConsI)

lemma spaces1_suffix: "spaces1 s = Some r \<Longrightarrow> suffix r s"
  by (auto simp add: spaces1_def split: list.splits if_splits
      intro: suffix_ConsI suffix_dropWhile)

lemma header_tail_suffix: "header_tail s = Some r \<Longrightarrow> suffix r s"
  unfolding header_tail_def
  by (auto split: option.splits dest!: lit_ci_suffix spaces1_suffix
      intro: suffix_order.trans)

lemma header_at_suffix: "header_at s = Some r \<Longrightarrow> suffix r s"
  unfolding header_at_def
  by (auto split: option.splits dest!: lit_ci_suffix header_tail_suffix
      intro: suffix_order.trans)

lemma lazy_group_prefix: "prefix (lazy_group s) s"
  by (induction s rule: lazy_group.induct) simp_all

lemma section_after_sublist: "sublist (section_after t) t"
proof -
  have "suffix (dropWhile isspace (dropWhile is_colon_dash t)) t"
    by (meson suffix_dropWhile suffix_order.trans)
  then show ?thesis
    unfolding section_after_def sublist_altdef' using lazy_group_prefix by blast
qed

lemma re_search_section_sublist: "re_search_section t = Some g \<Longrightarrow> sublist g t"
proof (induction t rule: re_search_section.induct)
  case 1
  then show ?case by simp
next
  case (2 c cs)
  show ?case
  proof (cases "header_at (c # cs)")
    case None
    with 2 have "sublist g cs" by simp
    then show ?thesis by (simp add: sublist_Cons_right)
  next
    case (Some r)
    with 2 have g: "g = section_after r" by simp
    have "sublist (section_after r) r" by (rule section_after_sublist)
    moreover have "sublist r (c # cs)" using header_at_suffix [OF Some] by simp
    ultimately show ?thesis unfolding g by (rule sublist_trans)
  qed
qed

lemma process_lines_subseq:
  "subseq (process_lines ls) (map (\<lambda>l. strip (remove_bullet (strip l))) ls)"
  by (induction ls) (auto simp add: Let_def)

text \<open>
  C9. On the text of the claim the extractor returns ``Adding fractions'' and ``Long
  division'', in this order. For every text: without a match of the section pattern, or
  with a section that is empty after stripping, the result is the empty list; otherwise
  the section is a contiguous part of the text and the result is a subsequence of the
  cleaned lines of the section, so the topics come in their order of appearance. The
  function is total: it returns a list for every text.
\<close>

theorem extract_weak_areas:
  "extract_weak_areas_from_analysis
     (py ''AREAS FOR IMPROVEMENT:\<newline>- Adding fractions\<newline>- Long division\<newline>\<newline>You're doing great!'') =
     [py ''Adding fractions'', py ''Long division''] \<and>
   (re_search_section t = None \<longrightarrow> extract_weak_areas_from_analysis t = []) \<and>
   (\<forall>g. re_search_section t = Some g \<longrightarrow>
      sublist g t \<and>
      (strip g = [] \<longrightarrow> extract_weak_areas_from_analysis t = []) \<and>
      subseq (extract_weak_areas_from_analysis t)
        (map (\<lambda>l. strip (remove_bullet (strip l))) (split_nl (strip g))))"
proof -
  have "extract_weak_areas_from_analysis
     (py ''AREAS FOR IMPROVEMENT:\<newline>- Adding fractions\<newline>- Long division\<newline>\<newline>You're doing great!'') =
     [py ''Adding fractions'', py ''Long division'']"
    by (simp add: extract_defs char_defs)
  moreover have "re_search_section t = None \<longrightarrow> extract_weak_areas_from_analysis t = []"
    by (simp add: extract_weak_areas_from_analysis_def)
  moreover have "\<forall>g. re_search_section t = Some g \<longrightarrow>
      sublist g t \<and>
      (strip g = [] \<longrightarrow> extract_weak_areas_from_analysis t = []) \<and>
      subseq (extract_weak_areas_from_analysis t)
        (map (\<lambda>l. strip (remove_bullet (strip l))) (split_nl (strip g)))"
    by (simp add: extract_weak_areas_from_analysis_def Let_def re_search_section_sublist
        process_lines_subseq)
  ultimately show ?thesis by blast
qed

theorem extract_weak_areas_witness:
  "re_search_section (py ''Well done overall.'') = None \<and>
   extract_weak_areas_from_analysis (py ''Well done overall.'') = [] \<and>
   re_search_section (py ''Areas for improvement:\<newline>* Time\<newline>3. Next steps\<newline>- Read'') =
     Some (py ''* Time\<newline>'') \<and>
   sublist (py ''* Time\<newline>'')
     (py ''Areas for improvement:\<newline>* Time\<newline>3. Next steps\<newline>- Read'') \<and>
   subseq
     (extract_weak_areas_from_analysis
        (py ''Areas for improvement:\<newline>* Time\<newline>3. Next steps\<newline>- Read''))
     [py ''Time'']"
proof -
  have a: "re_search_section (py ''Well done overall.'') = None"
    by (simp add: extract_defs char_defs)
  have b: "re_search_section
             (py ''Areas for improvement:\<newline>* Time\<newline>3. Next steps\<newline>- Read'') =
           Some (py ''* Time\<newline>'')"
    by (simp add: extract_defs char_defs)
  have c: "map (\<lambda>l. strip (remove_bullet (strip l))) (split_nl (strip (py ''* Time\<newline>''))) =
           [py ''Time'']"
    by (simp add: extract_defs char_defs)
  from extract_weak_areas [of "py ''Well done overall.''"]
    extract_weak_areas
      [of "py ''Areas for improvement:\<newline>* Time\<newline>3. Next steps\<newline>- Read''"]
    a b c
  show ?thesis by simp
qed

end
